theory Spec2Isabelle
  imports Main
begin

section \<open>Data model (types.ts)\<close>

text \<open>
  JavaScript numbers are modelled as \<open>int\<close>: every number the modelled code computes with
  is an integer far below \<open>2^53\<close> (minutes, milliseconds, HTTP status codes), where the
  double arithmetic of the source is exact.

  \<open>SceneConfig\<close> is \<open>{ id, name, transitionDuration }\<close>; the fields \<open>id\<close> and \<open>name\<close>
  carry the prefix \<open>cfg_\<close> because \<open>id\<close> is a HOL constant.
\<close>

record SceneConfig =
  cfg_id :: string
  cfg_name :: string
  transitionDuration :: int

text \<open>Of \<open>HueTransitionsPlatformConfig\<close> the modelled code reads \<open>scenes\<close> and
  \<open>debug\<close> (an absent \<open>debug\<close> is falsy, hence \<open>False\<close>).\<close>

record PlatformConfig =
  scenes :: "SceneConfig list"
  debug :: bool

text \<open>
  \<open>HueScene\<close>: of the bridge's scene resource the code reads \<open>id\<close>, \<open>metadata.name\<close>
  and the optional \<open>status\<close> object with its field \<open>active\<close>. \<open>status_active\<close> is
  \<open>None\<close> when \<open>status\<close> is absent, and the string sent by the bridge otherwise (the
  source compares it with \<open>===\<close> against string literals).
\<close>

record HueScene =
  scene_id :: string
  metadata_name :: string
  status_active :: "string option"

text \<open>\<open>HueAuthResponse\<close>: both fields are optional; \<open>success\<close> is a list of
  \<open>{ username }\<close> objects, modelled as the list of the usernames.\<close>

record AuthError =
  err_type :: int
  address :: string
  description :: string

record HueAuthResponse =
  success :: "string list option"
  error :: "AuthError option"

text \<open>\<open>HueResourceListResponse<T>\<close> and \<open>HueSingleResourceResponse<T>\<close>: the envelope
  \<open>{ errors: [{description}], data: T[] }\<close>; \<open>errors\<close> is the list of the descriptions.\<close>

record 'a HueResourceResponse =
  errors :: "string list"
  data :: "'a list"

text \<open>\<open>SceneRecallRequest\<close>: \<open>{ recall: { action: 'active', duration?: number } }\<close>.\<close>

record SceneRecallRequest =
  recall_action :: string
  recall_duration :: "int option"

section \<open>Errors, promises and effects\<close>

text \<open>The fields of an \<open>AxiosError\<close> that \<open>handleApiError\<close> reads: \<open>response.status\<close>,
  \<open>code\<close> and \<open>message\<close>, each of them optional there.\<close>

record AxiosError =
  response_status :: "int option"
  code :: "string option"
  message :: "string option"

datatype js_error = JsError string | JsTypeError string

fun error_message :: "js_error \<Rightarrow> string" where
  "error_message (JsError m) = m"
| "error_message (JsTypeError m) = m"

text \<open>How the promise of an HTTP client call settles: fulfilled with the response data,
  rejected with an axios error (after the client's own retries), or rejected with
  another error.\<close>

datatype 'a settled = Fulfilled 'a | RejectedAxios AxiosError | Rejected js_error

datatype hap_status = SERVICE_COMMUNICATION_FAILURE

datatype hap_error = HapStatusError hap_status

text \<open>
  An \<open>async\<close> function runs synchronously up to its first \<open>await\<close>. Each modelled
  function is therefore split in two: \<open>f_begin\<close> runs up to the \<open>await\<close> of the network
  call (outcome \<open>Await\<close>) or to the end when no call is made, and \<open>f_resume\<close> runs the
  continuation once the promise has settled. Other calls may run in between.
\<close>

datatype 'a outcome = Return 'a | Throw hap_error | Await

datatype log_level = Debug | Info | Warn | LogError

text \<open>What the code does to the outside world, in the order it does it: HTTP client
  calls, log lines, timers, characteristic updates and \<open>sceneUpdated\<close> events.\<close>

datatype effect =
    HttpGet string
  | HttpPut string SceneRecallRequest
  | HttpPost string string
  | Log log_level string
  | SetTimeout effect int
  | UpdateCharacteristicOn bool
  | EmitSceneUpdated string bool

fun is_network :: "effect \<Rightarrow> bool" where
  "is_network (HttpGet url) = True"
| "is_network (HttpPut url body) = True"
| "is_network (HttpPost url body) = True"
| "is_network e = False"

definition network_calls :: "effect list \<Rightarrow> effect list" where
  "network_calls es = filter is_network es"

fun broadcasts :: "effect list \<Rightarrow> (string \<times> bool) list" where
  "broadcasts [] = []"
| "broadcasts (EmitSceneUpdated sceneId isActive # es) = (sceneId, isActive) # broadcasts es"
| "broadcasts (e # es) = broadcasts es"

section \<open>String helpers\<close>

text \<open>\<open>Array.prototype.join\<close> and the rendering of an integer in a template literal.\<close>

fun join :: "string \<Rightarrow> string list \<Rightarrow> string" where
  "join sep [] = []"
| "join sep [x] = x"
| "join sep (x # y # ys) = x @ sep @ join sep (y # ys)"

fun show_nat :: "nat \<Rightarrow> string" where
  "show_nat n =
     (if n < 10 then [char_of (48 + n)]
      else show_nat (n div 10) @ [char_of (48 + n mod 10)])"

declare show_nat.simps [simp del]

definition show_int :: "int \<Rightarrow> string" where
  "show_int i = (if i < 0 then CHR ''-'' # show_nat (nat (- i)) else show_nat (nat i))"

definition show_bool :: "bool \<Rightarrow> string" where
  "show_bool b = (if b then ''true'' else ''false'')"

definition quoted :: "string \<Rightarrow> string" where
  "quoted s = CHR 0x22 # s @ [CHR 0x22]"

section \<open>The bridge API client (api.ts)\<close>

text \<open>\<open>handleApiError\<close> always throws; the model returns the error it throws.\<close>

definition handleApiError :: "AxiosError \<Rightarrow> js_error" where
  "handleApiError e =
     (let by_code =
        (if code e = Some ''ECONNREFUSED''
           then JsError ''Cannot connect to Hue bridge - check bridge IP address''
         else if code e = Some ''ETIMEDOUT''
           then JsError ''Connection to Hue bridge timed out''
         else JsError (''Hue API error: '' @
                (case message e of Some m \<Rightarrow> m | None \<Rightarrow> ''Unknown error'')))
      in case response_status e of
           Some status \<Rightarrow>
             if status = 401 \<or> status = 403
               then JsError ''Authentication failed - please check your API key''
             else if status = 404 then JsError ''Resource not found on Hue bridge''
             else if status = 429
               then JsError ''Rate limit exceeded - too many requests to Hue bridge''
             else if status \<ge> 500 then JsError ''Hue bridge server error''
             else by_code
         | None \<Rightarrow> by_code)"

text \<open>\<open>createApiKey\<close>: the POST it issues, and what it returns or throws once the POST
  has settled. \<open>response.data[0]\<close> of an empty list is \<open>undefined\<close>, and reading
  \<open>success\<close> of it is a \<open>TypeError\<close>. Errors thrown inside the \<open>try\<close> are not axios
  errors, so the \<open>catch\<close> rethrows them unchanged.\<close>

definition createApiKey_begin :: "string \<Rightarrow> string \<Rightarrow> string \<Rightarrow> effect" where
  "createApiKey_begin bridgeIp appName deviceName =
     HttpPost (''https://'' @ bridgeIp @ ''/api'') (appName @ ''#'' @ deviceName)"

definition createApiKey_settle :: "HueAuthResponse list settled \<Rightarrow> js_error + string" where
  "createApiKey_settle r =
     (case r of
        Fulfilled response_data \<Rightarrow>
          (case response_data of
             [] \<Rightarrow> Inl (JsTypeError
                     ''Cannot read properties of undefined (reading 'success')'')
           | result # _ \<Rightarrow>
               (case success result of
                  Some (first # _) \<Rightarrow> Inr first
                | _ \<Rightarrow>
                    (case error result of
                       Some err \<Rightarrow> Inl (JsError (description err))
                     | None \<Rightarrow> Inl (JsError ''Unexpected response format from Hue bridge''))))
      | RejectedAxios e \<Rightarrow>
          Inl (JsError (''Failed to create API key: '' @
                 (case message e of Some m \<Rightarrow> m | None \<Rightarrow> ''undefined'')))
      | Rejected e \<Rightarrow> Inl e)"

text \<open>The envelope check shared by \<open>getScenes\<close>, \<open>getScene\<close> and \<open>recallScene\<close>.\<close>

definition api_errors :: "'a HueResourceResponse \<Rightarrow> js_error" where
  "api_errors response_data = JsError (''Hue API errors: '' @ join '', '' (errors response_data))"

definition getScenes_begin :: effect where
  "getScenes_begin = HttpGet ''/resource/scene''"

definition getScenes_settle ::
  "HueScene HueResourceResponse settled \<Rightarrow> js_error + HueScene list" where
  "getScenes_settle r =
     (case r of
        Fulfilled response_data \<Rightarrow>
          if length (errors response_data) > 0 then Inl (api_errors response_data)
          else Inr (data response_data)
      | RejectedAxios e \<Rightarrow> Inl (handleApiError e)
      | Rejected e \<Rightarrow> Inl e)"

definition getScene_begin :: "string \<Rightarrow> effect" where
  "getScene_begin sceneId = HttpGet (''/resource/scene/'' @ sceneId)"

definition getScene_settle ::
  "string \<Rightarrow> HueScene HueResourceResponse settled \<Rightarrow> js_error + HueScene" where
  "getScene_settle sceneId r =
     (case r of
        Fulfilled response_data \<Rightarrow>
          if length (errors response_data) > 0 then Inl (api_errors response_data)
          else (case data response_data of
                  [] \<Rightarrow> Inl (JsError (''Scene '' @ sceneId @ '' not found''))
                | scene # _ \<Rightarrow> Inr scene)
      | RejectedAxios e \<Rightarrow> Inl (handleApiError e)
      | Rejected e \<Rightarrow> Inl e)"

text \<open>\<open>recallScene(sceneId, transitionMs?)\<close>: the request is built and the PUT issued
  before the \<open>await\<close>; \<open>duration\<close> is set only for a given, positive \<open>transitionMs\<close>.\<close>

definition recallScene_request :: "int option \<Rightarrow> SceneRecallRequest" where
  "recallScene_request transitionMs =
     (let request = \<lparr>recall_action = ''active'', recall_duration = None\<rparr>
      in case transitionMs of
           Some ms \<Rightarrow> if ms > 0 then request\<lparr>recall_duration := Some ms\<rparr> else request
         | None \<Rightarrow> request)"

definition recallScene_begin :: "string \<Rightarrow> int option \<Rightarrow> effect" where
  "recallScene_begin sceneId transitionMs =
     HttpPut (''/resource/scene/'' @ sceneId) (recallScene_request transitionMs)"

definition recallScene_settle ::
  "HueScene HueResourceResponse settled \<Rightarrow> js_error + unit" where
  "recallScene_settle r =
     (case r of
        Fulfilled response_data \<Rightarrow>
          if length (errors response_data) > 0 then Inl (api_errors response_data)
          else Inr ()
      | RejectedAxios e \<Rightarrow> Inl (handleApiError e)
      | Rejected e \<Rightarrow> Inl e)"

section \<open>The scene accessory (sceneAccessory.ts)\<close>

record AccessoryState =
  isActivating :: bool
  lastActivated :: "int option"

text \<open>The expression \<open>scene.status?.active === 'static' || scene.status?.active ===
  'dynamic_palette'\<close>, written out in \<open>getOn\<close> and in \<open>pollSceneStatus\<close>.\<close>

definition scene_isActive :: "HueScene \<Rightarrow> bool" where
  "scene_isActive scene =
     (status_active scene = Some ''static'' \<or> status_active scene = Some ''dynamic_palette'')"

text \<open>\<open>getOn\<close>; \<open>now\<close> is the value of \<open>Date.now()\<close>. The outer \<open>catch\<close> of the source
  has nothing to catch: the inner \<open>try\<close> handles every rejection of \<open>getScene\<close>.\<close>

definition getOn_begin :: "SceneConfig \<Rightarrow> int \<Rightarrow> AccessoryState \<Rightarrow> effect list \<times> bool outcome" where
  "getOn_begin sceneConfig now st =
     (case lastActivated st of
        Some t \<Rightarrow>
          (let timeSinceActivation = now - t
           in if timeSinceActivation < 30000 then ([], Return True)
              else ([getScene_begin (cfg_id sceneConfig)], Await))
      | None \<Rightarrow> ([getScene_begin (cfg_id sceneConfig)], Await))"

definition getOn_resume ::
  "SceneConfig \<Rightarrow> PlatformConfig \<Rightarrow> HueScene HueResourceResponse settled \<Rightarrow>
     effect list \<times> bool outcome" where
  "getOn_resume sceneConfig config r =
     (case getScene_settle (cfg_id sceneConfig) r of
        Inr scene \<Rightarrow>
          (let isActive = scene_isActive scene
           in ((if debug config
                then [Log Debug (''Scene '' @ cfg_name sceneConfig @ '' status: '' @
                        (case status_active scene of Some a \<Rightarrow> a | None \<Rightarrow> ''unknown'') @
                        '', isActive: '' @ show_bool isActive)]
                else []),
               Return isActive))
      | Inl err \<Rightarrow>
          ([Log Warn (''Failed to get scene status for '' @ cfg_name sceneConfig @ '': '' @
              error_message err)],
           Return False))"

text \<open>A whole \<open>getOn\<close> call, with \<open>r\<close> what the bridge would answer to \<open>getScene\<close>.\<close>

definition getOn ::
  "SceneConfig \<Rightarrow> PlatformConfig \<Rightarrow> int \<Rightarrow> HueScene HueResourceResponse settled \<Rightarrow>
     AccessoryState \<Rightarrow> effect list \<times> bool outcome" where
  "getOn sceneConfig config now r st =
     (case getOn_begin sceneConfig now st of
        (es, Await) \<Rightarrow>
          (case getOn_resume sceneConfig config r of (es', out) \<Rightarrow> (es @ es', out))
      | (es, out) \<Rightarrow> (es, out))"

text \<open>\<open>setOn\<close>. The early return for \<open>isActivating\<close> is before the \<open>try\<close>, so the
  \<open>finally\<close> does not run there; on every other path it sets \<open>isActivating\<close> to false.\<close>

definition setOn_begin ::
  "SceneConfig \<Rightarrow> PlatformConfig \<Rightarrow> bool \<Rightarrow> AccessoryState \<Rightarrow>
     AccessoryState \<times> effect list \<times> unit outcome" where
  "setOn_begin sceneConfig config isOn st =
     (if isActivating st
      then (st,
            [Log Debug (''Scene '' @ cfg_name sceneConfig @
               '' is already activating, ignoring request'')],
            Return ())
      else if isOn
      then (let transitionMs = transitionDuration sceneConfig * 60 * 1000
            in (st\<lparr>isActivating := True\<rparr>,
                [Log Info (''Activating scene '' @ quoted (cfg_name sceneConfig) @ '' with '' @
                   show_int (transitionDuration sceneConfig) @ '' minute transition''),
                 recallScene_begin (cfg_id sceneConfig) (Some transitionMs)],
                Await))
      else (st\<lparr>lastActivated := None, isActivating := False\<rparr>,
            (if debug config
             then [Log Debug (''Scene '' @ cfg_name sceneConfig @
                     '' turned off (no action taken)'')]
             else []),
            Return ()))"

definition setOn_resume ::
  "SceneConfig \<Rightarrow> bool \<Rightarrow> int \<Rightarrow> HueScene HueResourceResponse settled \<Rightarrow> AccessoryState \<Rightarrow>
     AccessoryState \<times> effect list \<times> unit outcome" where
  "setOn_resume sceneConfig isOn now r st =
     (case recallScene_settle r of
        Inr _ \<Rightarrow>
          (st\<lparr>lastActivated := Some now, isActivating := False\<rparr>,
           [Log Info (''Successfully activated scene '' @ quoted (cfg_name sceneConfig))],
           Return ())
      | Inl err \<Rightarrow>
          (st\<lparr>isActivating := False\<rparr>,
           [Log LogError (''Failed to activate scene '' @ cfg_name sceneConfig @ '': '' @
              error_message err),
            SetTimeout (UpdateCharacteristicOn (\<not> isOn)) 100],
           Throw (HapStatusError SERVICE_COMMUNICATION_FAILURE)))"

text \<open>A whole \<open>setOn\<close> call with nothing in between, \<open>r\<close> being how the PUT settles.\<close>

definition setOn ::
  "SceneConfig \<Rightarrow> PlatformConfig \<Rightarrow> bool \<Rightarrow> int \<Rightarrow> HueScene HueResourceResponse settled \<Rightarrow>
     AccessoryState \<Rightarrow> AccessoryState \<times> effect list \<times> unit outcome" where
  "setOn sceneConfig config isOn now r st =
     (case setOn_begin sceneConfig config isOn st of
        (st1, es, Await) \<Rightarrow>
          (case setOn_resume sceneConfig isOn now r st1 of
             (st2, es', out) \<Rightarrow> (st2, es @ es', out))
      | (st1, es, out) \<Rightarrow> (st1, es, out))"

section \<open>The platform's poll loop (platform.ts)\<close>

text \<open>The class \<open>HueTransitionsPlatform\<close>, the third part of \<open>src/api.ts\<close> as the files
  are laid out here. Of the platform's fields the poll reads \<open>apiClient\<close> (null or a client, made of
  the bridge address and the key) and reads and writes \<open>isPolling\<close>.\<close>

record HueApiClient =
  bridgeIp :: string
  apiKey :: string

record PlatformState =
  isPolling :: bool
  apiClient :: "HueApiClient option"

text \<open>\<open>new Map(scenes.map(s => [s.id, s]))\<close>: the entries are set in order, a later
  scene with the same id replaces an earlier one.\<close>

definition sceneMap :: "HueScene list \<Rightarrow> (string \<rightharpoonup> HueScene)" where
  "sceneMap scenes_list = foldl (\<lambda>m s. m(scene_id s \<mapsto> s)) Map.empty scenes_list"

text \<open>The loop \<open>for (const sceneConfig of this.config.scenes)\<close>.\<close>

fun poll_loop :: "(string \<rightharpoonup> HueScene) \<Rightarrow> SceneConfig list \<Rightarrow> effect list" where
  "poll_loop m [] = []"
| "poll_loop m (sceneConfig # rest) =
     (case m (cfg_id sceneConfig) of
        Some scene \<Rightarrow>
          (let isActive = scene_isActive scene
           in EmitSceneUpdated (cfg_id sceneConfig) isActive # poll_loop m rest)
      | None \<Rightarrow> poll_loop m rest)"

definition pollSceneStatus_begin :: "PlatformState \<Rightarrow> PlatformState \<times> effect list \<times> unit outcome" where
  "pollSceneStatus_begin st =
     (if isPolling st \<or> apiClient st = None then (st, [], Return ())
      else (st\<lparr>isPolling := True\<rparr>, [getScenes_begin], Await))"

text \<open>The continuation: the \<open>catch\<close> logs and swallows, the \<open>finally\<close> clears
  \<open>isPolling\<close>. The second argument of \<open>log.error\<close> is the error object; the model
  appends its message. The listeners of \<open>sceneUpdated\<close> are the accessories'
  \<open>handleSceneUpdate\<close>, which update a characteristic and do not throw.\<close>

definition pollSceneStatus_resume ::
  "PlatformConfig \<Rightarrow> HueScene HueResourceResponse settled \<Rightarrow> PlatformState \<Rightarrow>
     PlatformState \<times> effect list \<times> unit outcome" where
  "pollSceneStatus_resume config r st =
     (case getScenes_settle r of
        Inr bridge_scenes \<Rightarrow>
          (st\<lparr>isPolling := False\<rparr>,
           poll_loop (sceneMap bridge_scenes) (scenes config) @
             (if debug config then [Log Debug ''Scene status poll completed''] else []),
           Return ())
      | Inl err \<Rightarrow>
          (st\<lparr>isPolling := False\<rparr>,
           [Log LogError (''Error polling scene status: '' @ error_message err)],
           Return ()))"

text \<open>A whole poll tick, \<open>r\<close> being how the GET of \<open>getScenes\<close> settles.\<close>

definition pollSceneStatus ::
  "PlatformConfig \<Rightarrow> HueScene HueResourceResponse settled \<Rightarrow> PlatformState \<Rightarrow>
     PlatformState \<times> effect list \<times> unit outcome" where
  "pollSceneStatus config r st =
     (case pollSceneStatus_begin st of
        (st1, es, Await) \<Rightarrow>
          (case pollSceneStatus_resume config r st1 of
             (st2, es', out) \<Rightarrow> (st2, es @ es', out))
      | (st1, es, out) \<Rightarrow> (st1, es, out))"

section \<open>Scene activation\<close>

lemma recallScene_request_positive:
  "0 < ms \<Longrightarrow>
   recallScene_request (Some ms) = \<lparr>recall_action = ''active'', recall_duration = Some ms\<rparr>"
  by (simp add: recallScene_request_def)

lemma minutes_to_ms: "(d::int) * 60 * 1000 = d * 60000"
  by simp

lemma setOn_begin_on:
  "\<not> isActivating st \<Longrightarrow>
   setOn_begin sceneConfig config True st =
     (st\<lparr>isActivating := True\<rparr>,
      [Log Info (''Activating scene '' @ quoted (cfg_name sceneConfig) @ '' with '' @
         show_int (transitionDuration sceneConfig) @ '' minute transition''),
       recallScene_begin (cfg_id sceneConfig) (Some (transitionDuration sceneConfig * 60000))],
      Await)"
  unfolding setOn_begin_def Let_def minutes_to_ms by simp

lemma network_calls_setOn_begin_on:
  "\<not> isActivating st \<Longrightarrow>
   network_calls (fst (snd (setOn_begin sceneConfig config True st))) =
     [recallScene_begin (cfg_id sceneConfig) (Some (transitionDuration sceneConfig * 60000))]"
  by (simp add: setOn_begin_on network_calls_def recallScene_begin_def)

lemma network_calls_setOn_resume:
  "network_calls (fst (snd (setOn_resume sceneConfig isOn now r st))) = []"
  by (simp add: setOn_resume_def network_calls_def split: sum.splits)

lemma network_calls_setOn_on:
  assumes "\<not> isActivating st"
  shows "network_calls (fst (snd (setOn sceneConfig config True now r st))) =
     [recallScene_begin (cfg_id sceneConfig) (Some (transitionDuration sceneConfig * 60000))]"
proof -
  obtain st2 es2 out2
    where resume: "setOn_resume sceneConfig True now r (st\<lparr>isActivating := True\<rparr>) =
      (st2, es2, out2)"
    by (cases "setOn_resume sceneConfig True now r (st\<lparr>isActivating := True\<rparr>)") blast
  have "network_calls es2 = []"
    using network_calls_setOn_resume [of sceneConfig True now r "st\<lparr>isActivating := True\<rparr>"]
      resume by simp
  then show ?thesis
    using assms resume
    by (simp add: setOn_def setOn_begin_on network_calls_def recallScene_begin_def)
qed

text \<open>
  Claim C1. For a scene configuration with \<open>transitionDuration = d\<close>, \<open>1 \<le> d \<le> 60\<close>, a
  \<open>setOn(true)\<close> that proceeds to activation (no activation is in flight) calls
  \<open>recallScene\<close> with \<open>transitionMs = d * 60000\<close> before it awaits; that PUT is the
  only network call of the whole \<open>setOn\<close>, however it settles, and its body has
  \<open>recall.duration = d * 60000\<close>.
\<close>

theorem setOn_recalls_with_duration_ms:
  assumes "transitionDuration sceneConfig = d" and "1 \<le> d" and "d \<le> 60"
    and "\<not> isActivating st"
    and "setOn_begin sceneConfig config True st = (st1, es1, out1)"
    and "setOn sceneConfig config True now r st = (st', es, out)"
  shows "out1 = Await
    \<and> network_calls es1 = [recallScene_begin (cfg_id sceneConfig) (Some (d * 60000))]
    \<and> network_calls es = [recallScene_begin (cfg_id sceneConfig) (Some (d * 60000))]
    \<and> recallScene_begin (cfg_id sceneConfig) (Some (d * 60000)) =
        HttpPut (''/resource/scene/'' @ cfg_id sceneConfig)
          \<lparr>recall_action = ''active'', recall_duration = Some (d * 60000)\<rparr>"
proof -
  have pos: "0 < d * 60000" using assms(2) by simp
  have calls1: "network_calls es1 = [recallScene_begin (cfg_id sceneConfig) (Some (d * 60000))]"
    using network_calls_setOn_begin_on [OF assms(4), of sceneConfig config] assms(1,5) by simp
  have calls: "network_calls es = [recallScene_begin (cfg_id sceneConfig) (Some (d * 60000))]"
    using network_calls_setOn_on [OF assms(4), of sceneConfig config now r] assms(1,6) by simp
  have out1: "out1 = Await"
    using setOn_begin_on [OF assms(4), of sceneConfig config] assms(5) by simp
  have body: "recallScene_begin (cfg_id sceneConfig) (Some (d * 60000)) =
      HttpPut (''/resource/scene/'' @ cfg_id sceneConfig)
        \<lparr>recall_action = ''active'', recall_duration = Some (d * 60000)\<rparr>"
    unfolding recallScene_begin_def using recallScene_request_positive [OF pos] by simp
  from out1 calls1 calls body show ?thesis by simp
qed

theorem setOn_recalls_with_duration_ms_witness:
  "transitionDuration \<lparr>cfg_id = ''scene-1'', cfg_name = ''Sunset'', transitionDuration = 30\<rparr> = 30
   \<and> (1::int) \<le> 30 \<and> (30::int) \<le> 60
   \<and> \<not> isActivating \<lparr>isActivating = False, lastActivated = None\<rparr>
   \<and> network_calls (fst (snd (setOn
         \<lparr>cfg_id = ''scene-1'', cfg_name = ''Sunset'', transitionDuration = 30\<rparr>
         \<lparr>scenes = [], debug = False\<rparr> True 5000 (Fulfilled \<lparr>errors = [], data = []\<rparr>)
         \<lparr>isActivating = False, lastActivated = None\<rparr>))) =
       [HttpPut ''/resource/scene/scene-1''
          \<lparr>recall_action = ''active'', recall_duration = Some 1800000\<rparr>]"
proof -
  let ?cfg = "\<lparr>cfg_id = ''scene-1'', cfg_name = ''Sunset'', transitionDuration = 30\<rparr>"
  let ?config = "\<lparr>scenes = [], debug = False\<rparr>"
  let ?r = "Fulfilled \<lparr>errors = [], data = []\<rparr> :: HueScene HueResourceResponse settled"
  let ?st = "\<lparr>isActivating = False, lastActivated = None\<rparr>"
  obtain st1 es1 out1 where started: "setOn_begin ?cfg ?config True ?st = (st1, es1, out1)"
    by (cases "setOn_begin ?cfg ?config True ?st") blast
  obtain st' es out where run: "setOn ?cfg ?config True 5000 ?r ?st = (st', es, out)"
    by (cases "setOn ?cfg ?config True 5000 ?r ?st") blast
  have "out1 = Await
    \<and> network_calls es1 = [recallScene_begin (cfg_id ?cfg) (Some (30 * 60000))]
    \<and> network_calls es = [recallScene_begin (cfg_id ?cfg) (Some (30 * 60000))]
    \<and> recallScene_begin (cfg_id ?cfg) (Some (30 * 60000)) =
        HttpPut (''/resource/scene/'' @ cfg_id ?cfg)
          \<lparr>recall_action = ''active'', recall_duration = Some (30 * 60000)\<rparr>"
    by (rule setOn_recalls_with_duration_ms [OF _ _ _ _ started run]) simp_all
  with run show ?thesis by simp
qed

section \<open>Reading the switch\<close>

text \<open>
  Claim C2. A \<open>getOn\<close> call made when \<open>lastActivated\<close> is set and
  \<open>now - lastActivated < 30000\<close> returns true and has no effect at all: no network
  call is made (\<open>getScene\<close> is not invoked), whatever the bridge would have answered.
\<close>

theorem getOn_recently_activated:
  assumes "lastActivated st = Some t" and "now - t < 30000"
  shows "getOn_begin sceneConfig now st = ([], Return True)
    \<and> getOn sceneConfig config now r st = ([], Return True)"
proof -
  have b: "getOn_begin sceneConfig now st = ([], Return True)"
    using assms by (simp add: getOn_begin_def)
  then show ?thesis by (simp add: getOn_def)
qed

theorem getOn_recently_activated_witness:
  "lastActivated \<lparr>isActivating = False, lastActivated = Some 1000\<rparr> = Some 1000
   \<and> (30999::int) - 1000 < 30000
   \<and> getOn \<lparr>cfg_id = ''scene-1'', cfg_name = ''Sunset'', transitionDuration = 30\<rparr>
        \<lparr>scenes = [], debug = True\<rparr> 30999
        (Fulfilled \<lparr>errors = [], data = [\<lparr>scene_id = ''scene-1'', metadata_name = ''Sunset'',
           status_active = Some ''inactive''\<rparr>]\<rparr>)
        \<lparr>isActivating = False, lastActivated = Some 1000\<rparr> = ([], Return True)"
  using getOn_recently_activated
    [of "\<lparr>isActivating = False, lastActivated = Some 1000\<rparr>" 1000 30999
        "\<lparr>cfg_id = ''scene-1'', cfg_name = ''Sunset'', transitionDuration = 30\<rparr>"
        "\<lparr>scenes = [], debug = True\<rparr>"
        "Fulfilled \<lparr>errors = [], data = [\<lparr>scene_id = ''scene-1'', metadata_name = ''Sunset'',
           status_active = Some ''inactive''\<rparr>]\<rparr>"]
  by simp

section \<open>Concurrent activations\<close>

lemma setOn_begin_busy:
  "isActivating st \<Longrightarrow>
   setOn_begin sceneConfig config isOn st =
     (st,
      [Log Debug (''Scene '' @ cfg_name sceneConfig @ '' is already activating, ignoring request'')],
      Return ())"
  by (simp add: setOn_begin_def)

text \<open>
  Claim C3. Two \<open>setOn(true)\<close> calls on one accessory, the second arriving while the
  first is awaiting \<open>recallScene\<close>: the first sets \<open>isActivating\<close> and issues the PUT; the
  second returns at once, leaves the state as it is and issues no network call; the
  continuation of the first issues none either. Exactly one \<open>recallScene\<close> call is made.
\<close>

theorem setOn_concurrent_single_recall:
  assumes "\<not> isActivating st0"
    and "setOn_begin sceneConfig config True st0 = (st1, es1, out1)"
    and "setOn_begin sceneConfig config True st1 = (st2, es2, out2)"
    and "setOn_resume sceneConfig True now r st2 = (st3, es3, out3)"
  shows "out1 = Await \<and> isActivating st1
    \<and> out2 = Return () \<and> st2 = st1 \<and> network_calls es2 = []
    \<and> network_calls (es1 @ es2 @ es3) =
        [recallScene_begin (cfg_id sceneConfig) (Some (transitionDuration sceneConfig * 60000))]"
proof -
  from assms(1,2) have first: "out1 = Await" "isActivating st1"
    by (auto simp: setOn_begin_on)
  from network_calls_setOn_begin_on [OF assms(1), of sceneConfig config] assms(2)
  have n1: "network_calls es1 =
      [recallScene_begin (cfg_id sceneConfig) (Some (transitionDuration sceneConfig * 60000))]"
    by simp
  from setOn_begin_busy [OF first(2), of sceneConfig config True] assms(3)
  have second: "out2 = Return ()" "st2 = st1" "network_calls es2 = []"
    by (auto simp: network_calls_def)
  from network_calls_setOn_resume [of sceneConfig True now r st2] assms(4)
  have n3: "network_calls es3 = []" by simp
  have "network_calls (es1 @ es2 @ es3) =
      network_calls es1 @ network_calls es2 @ network_calls es3"
    by (simp add: network_calls_def)
  with first second n1 n3 show ?thesis by simp
qed

theorem setOn_concurrent_single_recall_witness:
  "\<not> isActivating \<lparr>isActivating = False, lastActivated = None\<rparr>
   \<and> setOn_begin \<lparr>cfg_id = ''scene-1'', cfg_name = ''Sunset'', transitionDuration = 30\<rparr>
         \<lparr>scenes = [], debug = False\<rparr> True
        \<lparr>isActivating = True, lastActivated = None\<rparr> =
       (\<lparr>isActivating = True, lastActivated = None\<rparr>,
        [Log Debug ''Scene Sunset is already activating, ignoring request''], Return ())
   \<and> network_calls
       (fst (snd (setOn_begin \<lparr>cfg_id = ''scene-1'', cfg_name = ''Sunset'', transitionDuration = 30\<rparr>
          \<lparr>scenes = [], debug = False\<rparr> True \<lparr>isActivating = False, lastActivated = None\<rparr>)) @
        [Log Debug ''Scene Sunset is already activating, ignoring request''] @
        [Log Info (''Successfully activated scene '' @ quoted ''Sunset'')]) =
       [HttpPut ''/resource/scene/scene-1''
          \<lparr>recall_action = ''active'', recall_duration = Some 1800000\<rparr>]"
proof -
  let ?cfg = "\<lparr>cfg_id = ''scene-1'', cfg_name = ''Sunset'', transitionDuration = 30\<rparr>"
  let ?config = "\<lparr>scenes = [], debug = False\<rparr>"
  let ?st0 = "\<lparr>isActivating = False, lastActivated = None\<rparr>"
  let ?st1 = "\<lparr>isActivating = True, lastActivated = None\<rparr>"
  let ?r = "Fulfilled \<lparr>errors = [], data = []\<rparr> :: HueScene HueResourceResponse settled"
  let ?es1 = "fst (snd (setOn_begin ?cfg ?config True ?st0))"
  let ?es2 = "[Log Debug ''Scene Sunset is already activating, ignoring request'']"
  let ?es3 = "[Log Info (''Successfully activated scene '' @ quoted ''Sunset'')]"
  have a: "\<not> isActivating ?st0" by simp
  have b: "setOn_begin ?cfg ?config True ?st0 = (?st1, ?es1, Await)"
    by (simp add: setOn_begin_on)
  have c: "setOn_begin ?cfg ?config True ?st1 = (?st1, ?es2, Return ())"
    by (simp add: setOn_begin_busy)
  have d: "setOn_resume ?cfg True 5000 ?r ?st1 =
      (\<lparr>isActivating = False, lastActivated = Some 5000\<rparr>, ?es3, Return ())"
    by (simp add: setOn_resume_def recallScene_settle_def)
  from setOn_concurrent_single_recall [OF a b c d]
  have "network_calls (?es1 @ ?es2 @ ?es3) =
      [recallScene_begin (cfg_id ?cfg) (Some (transitionDuration ?cfg * 60000))]"
    by blast
  then have "network_calls (?es1 @ ?es2 @ ?es3) =
      [HttpPut ''/resource/scene/scene-1''
         \<lparr>recall_action = ''active'', recall_duration = Some 1800000\<rparr>]"
    by (simp add: recallScene_begin_def recallScene_request_def)
  with a c show ?thesis by simp
qed

section \<open>A failed activation\<close>

lemma setOn_on_rejected:
  assumes "\<not> isActivating st" and "recallScene_settle r = Inl err"
  shows "setOn sceneConfig config True now r st =
     (st\<lparr>isActivating := False\<rparr>,
      [Log Info (''Activating scene '' @ quoted (cfg_name sceneConfig) @ '' with '' @
         show_int (transitionDuration sceneConfig) @ '' minute transition''),
       recallScene_begin (cfg_id sceneConfig) (Some (transitionDuration sceneConfig * 60000)),
       Log LogError (''Failed to activate scene '' @ cfg_name sceneConfig @ '': '' @
         error_message err),
       SetTimeout (UpdateCharacteristicOn False) 100],
      Throw (HapStatusError SERVICE_COMMUNICATION_FAILURE))"
  using assms by (simp add: setOn_def setOn_begin_on setOn_resume_def)

text \<open>
  Claim C6. A \<open>setOn(true)\<close> whose \<open>recallScene\<close> rejects throws the status error
  \<open>SERVICE_COMMUNICATION_FAILURE\<close>, sets a timer of 100 ms that updates the On
  characteristic to false (the opposite of the requested value), leaves \<open>lastActivated\<close>
  as it was and \<open>isActivating\<close> false; the next \<open>setOn(true)\<close> issues a new
  \<open>recallScene\<close> call and awaits it.
\<close>

theorem setOn_recall_rejected:
  assumes "\<not> isActivating st0"
    and "recallScene_settle r = Inl err"
    and "setOn sceneConfig config True now r st0 = (st', es, out)"
  shows "out = Throw (HapStatusError SERVICE_COMMUNICATION_FAILURE)
    \<and> SetTimeout (UpdateCharacteristicOn (\<not> True)) 100 \<in> set es
    \<and> lastActivated st' = lastActivated st0
    \<and> \<not> isActivating st'
    \<and> network_calls (fst (snd (setOn_begin sceneConfig config True st'))) =
        [recallScene_begin (cfg_id sceneConfig) (Some (transitionDuration sceneConfig * 60000))]
    \<and> snd (snd (setOn_begin sceneConfig config True st')) = Await"
proof -
  from setOn_on_rejected [OF assms(1,2), of sceneConfig config now] assms(3)
  have st': "st' = st0\<lparr>isActivating := False\<rparr>"
    and out: "out = Throw (HapStatusError SERVICE_COMMUNICATION_FAILURE)"
    and timer: "SetTimeout (UpdateCharacteristicOn False) 100 \<in> set es"
    by auto
  from st' have idle: "\<not> isActivating st'" and kept: "lastActivated st' = lastActivated st0"
    by simp_all
  from idle have "snd (snd (setOn_begin sceneConfig config True st')) = Await"
    by (simp add: setOn_begin_on)
  with network_calls_setOn_begin_on [OF idle, of sceneConfig config] out timer idle kept
  show ?thesis by simp
qed

theorem setOn_recall_rejected_witness:
  "\<not> isActivating \<lparr>isActivating = False, lastActivated = Some 1000\<rparr>
   \<and> recallScene_settle (RejectedAxios
        \<lparr>response_status = Some 503, code = None, message = Some ''Request failed''\<rparr>) =
       Inl (JsError ''Hue bridge server error'')
   \<and> fst (setOn \<lparr>cfg_id = ''scene-1'', cfg_name = ''Sunset'', transitionDuration = 30\<rparr>
        \<lparr>scenes = [], debug = False\<rparr> True 90000
        (RejectedAxios \<lparr>response_status = Some 503, code = None, message = Some ''Request failed''\<rparr>)
        \<lparr>isActivating = False, lastActivated = Some 1000\<rparr>) =
       \<lparr>isActivating = False, lastActivated = Some 1000\<rparr>
   \<and> snd (snd (setOn \<lparr>cfg_id = ''scene-1'', cfg_name = ''Sunset'', transitionDuration = 30\<rparr>
        \<lparr>scenes = [], debug = False\<rparr> True 90000
        (RejectedAxios \<lparr>response_status = Some 503, code = None, message = Some ''Request failed''\<rparr>)
        \<lparr>isActivating = False, lastActivated = Some 1000\<rparr>)) =
       Throw (HapStatusError SERVICE_COMMUNICATION_FAILURE)"
proof -
  let ?cfg = "\<lparr>cfg_id = ''scene-1'', cfg_name = ''Sunset'', transitionDuration = 30\<rparr>"
  let ?config = "\<lparr>scenes = [], debug = False\<rparr>"
  let ?r = "RejectedAxios
    \<lparr>response_status = Some 503, code = None, message = Some ''Request failed''\<rparr>"
  let ?st0 = "\<lparr>isActivating = False, lastActivated = Some 1000\<rparr>"
  have a: "\<not> isActivating ?st0" by simp
  have b: "recallScene_settle ?r = Inl (JsError ''Hue bridge server error'')"
    by (simp add: recallScene_settle_def handleApiError_def)
  obtain st' es out where run: "setOn ?cfg ?config True 90000 ?r ?st0 = (st', es, out)"
    by (cases "setOn ?cfg ?config True 90000 ?r ?st0") blast
  from setOn_recall_rejected [OF a b run]
  have "out = Throw (HapStatusError SERVICE_COMMUNICATION_FAILURE)"
    and "lastActivated st' = Some 1000" and "\<not> isActivating st'"
    by simp_all
  then have "out = Throw (HapStatusError SERVICE_COMMUNICATION_FAILURE)" and "st' = ?st0"
    by simp_all
  with a b run show ?thesis by simp
qed

section \<open>Turning the switch off\<close>

text \<open>
  Claim C8. A \<open>setOn(false)\<close> never issues a network call, whatever the state: it
  returns without awaiting anything. When no activation is in flight it clears
  \<open>lastActivated\<close>.
\<close>

theorem setOn_off_no_network:
  assumes "setOn sceneConfig config False now r st = (st', es, out)"
  shows "network_calls es = []
    \<and> out = Return ()
    \<and> setOn_begin sceneConfig config False st = (st', es, out)
    \<and> (\<not> isActivating st \<longrightarrow> lastActivated st' = None \<and> \<not> isActivating st')"
proof (cases "isActivating st")
  case True
  with assms show ?thesis
    by (auto simp: setOn_def setOn_begin_busy network_calls_def)
next
  case False
  with assms show ?thesis
    by (auto simp: setOn_def setOn_begin_def network_calls_def)
qed

theorem setOn_off_no_network_witness:
  "\<not> isActivating \<lparr>isActivating = False, lastActivated = Some 1000\<rparr>
   \<and> network_calls (fst (snd (setOn
        \<lparr>cfg_id = ''scene-1'', cfg_name = ''Sunset'', transitionDuration = 30\<rparr>
        \<lparr>scenes = [], debug = True\<rparr> False 2000 (Fulfilled \<lparr>errors = [], data = []\<rparr>)
        \<lparr>isActivating = False, lastActivated = Some 1000\<rparr>))) = []
   \<and> lastActivated (fst (setOn
        \<lparr>cfg_id = ''scene-1'', cfg_name = ''Sunset'', transitionDuration = 30\<rparr>
        \<lparr>scenes = [], debug = True\<rparr> False 2000 (Fulfilled \<lparr>errors = [], data = []\<rparr>)
        \<lparr>isActivating = False, lastActivated = Some 1000\<rparr>)) = None"
proof -
  let ?cfg = "\<lparr>cfg_id = ''scene-1'', cfg_name = ''Sunset'', transitionDuration = 30\<rparr>"
  let ?config = "\<lparr>scenes = [], debug = True\<rparr>"
  let ?r = "Fulfilled \<lparr>errors = [], data = []\<rparr> :: HueScene HueResourceResponse settled"
  let ?st = "\<lparr>isActivating = False, lastActivated = Some 1000\<rparr>"
  have idle: "\<not> isActivating ?st" by simp
  obtain st' es out where run: "setOn ?cfg ?config False 2000 ?r ?st = (st', es, out)"
    by (cases "setOn ?cfg ?config False 2000 ?r ?st") blast
  from setOn_off_no_network [OF run] idle
  have "network_calls es = []" and "lastActivated st' = None"
    by blast+
  with run idle show ?thesis by simp
qed

section \<open>The poll tick\<close>

lemma sceneMap_map_of:
  "foldl (\<lambda>m s. m(scene_id s \<mapsto> s)) m0 xs =
     m0 ++ map_of (rev (map (\<lambda>s. (scene_id s, s)) xs))"
proof (induction xs arbitrary: m0)
  case Nil
  show ?case by simp
next
  case (Cons x xs)
  have "m0(scene_id x \<mapsto> x) ++ map_of (rev (map (\<lambda>s. (scene_id s, s)) xs)) =
      m0 ++ (map_of [(scene_id x, x)] ++ map_of (rev (map (\<lambda>s. (scene_id s, s)) xs)))"
    by simp
  with Cons.IH [of "m0(scene_id x \<mapsto> x)"] show ?case
    by (simp only: foldl_Cons list.map rev.simps map_of_append)
qed

lemma sceneMap_last_wins:
  "sceneMap xs = map_of (rev (map (\<lambda>s. (scene_id s, s)) xs))"
  by (simp add: sceneMap_def sceneMap_map_of)

lemma sceneMap_None_iff: "sceneMap xs i = None \<longleftrightarrow> i \<notin> scene_id ` set xs"
  by (simp add: sceneMap_last_wins map_of_eq_None_iff image_image)

lemma sceneMap_last_occurrence:
  assumes "scene_id scene \<notin> scene_id ` set later"
  shows "sceneMap (earlier @ scene # later) (scene_id scene) = Some scene"
proof -
  have "map_of (rev (map (\<lambda>s. (scene_id s, s)) later)) (scene_id scene) = None"
    using assms by (simp add: map_of_eq_None_iff image_image)
  then show ?thesis
    by (simp add: sceneMap_last_wins map_of_append map_add_def)
qed

lemma broadcasts_append: "broadcasts (es @ es') = broadcasts es @ broadcasts es'"
  by (induction es rule: broadcasts.induct) simp_all

lemma broadcasts_poll_loop:
  "broadcasts (poll_loop m cfgs) =
     map (\<lambda>c. (cfg_id c, scene_isActive (the (m (cfg_id c)))))
       (filter (\<lambda>c. m (cfg_id c) \<noteq> None) cfgs)"
  by (induction cfgs) (auto split: option.splits)

lemma pollSceneStatus_begin_idle:
  "\<not> isPolling st \<Longrightarrow> apiClient st = Some client \<Longrightarrow>
   pollSceneStatus_begin st = (st\<lparr>isPolling := True\<rparr>, [getScenes_begin], Await)"
  by (simp add: pollSceneStatus_begin_def)

text \<open>
  Claim C4. A poll tick that starts while \<open>isPolling\<close> is true (the fetch of an earlier
  tick has not settled) returns at once: no \<open>getScenes\<close> call, no broadcast, no effect
  at all, and the state is left as it is.
\<close>

theorem poll_skipped_while_polling:
  assumes "isPolling st"
  shows "pollSceneStatus_begin st = (st, [], Return ())
    \<and> pollSceneStatus config r st = (st, [], Return ())"
  using assms by (simp add: pollSceneStatus_def pollSceneStatus_begin_def)

theorem poll_skipped_while_polling_witness:
  "pollSceneStatus_begin
      \<lparr>isPolling = False, apiClient = Some \<lparr>bridgeIp = ''192.168.1.100'', apiKey = ''key''\<rparr>\<rparr> =
     (\<lparr>isPolling = True, apiClient = Some \<lparr>bridgeIp = ''192.168.1.100'', apiKey = ''key''\<rparr>\<rparr>,
      [HttpGet ''/resource/scene''], Await)
   \<and> isPolling \<lparr>isPolling = True, apiClient = Some \<lparr>bridgeIp = ''192.168.1.100'', apiKey = ''key''\<rparr>\<rparr>
   \<and> pollSceneStatus_begin
        \<lparr>isPolling = True, apiClient = Some \<lparr>bridgeIp = ''192.168.1.100'', apiKey = ''key''\<rparr>\<rparr> =
       (\<lparr>isPolling = True, apiClient = Some \<lparr>bridgeIp = ''192.168.1.100'', apiKey = ''key''\<rparr>\<rparr>,
        [], Return ())"
proof -
  let ?st0 = "\<lparr>isPolling = False,
    apiClient = Some \<lparr>bridgeIp = ''192.168.1.100'', apiKey = ''key''\<rparr>\<rparr>"
  let ?st1 = "\<lparr>isPolling = True,
    apiClient = Some \<lparr>bridgeIp = ''192.168.1.100'', apiKey = ''key''\<rparr>\<rparr>"
  have first: "pollSceneStatus_begin ?st0 = (?st1, [HttpGet ''/resource/scene''], Await)"
    by (simp add: pollSceneStatus_begin_def getScenes_begin_def)
  have busy: "isPolling ?st1" by simp
  from poll_skipped_while_polling [OF busy]
  have "pollSceneStatus_begin ?st1 = (?st1, [], Return ())" by blast
  with first busy show ?thesis by simp
qed

text \<open>
  Claim C7. A poll tick whose \<open>getScenes\<close> rejects emits no \<open>sceneUpdated\<close> event: after
  the GET it only logs the error. The tick returns normally (the error is swallowed)
  and leaves the platform state as it was before the tick, \<open>isPolling\<close> false, so the
  next tick issues its \<open>getScenes\<close> call as usual.
\<close>

theorem poll_getScenes_rejected:
  assumes "\<not> isPolling st0" and "apiClient st0 = Some client"
    and "getScenes_settle r = Inl err"
    and "pollSceneStatus config r st0 = (st', es, out)"
  shows "broadcasts es = []
    \<and> es = [getScenes_begin, Log LogError (''Error polling scene status: '' @ error_message err)]
    \<and> out = Return ()
    \<and> \<not> isPolling st' \<and> st' = st0
    \<and> pollSceneStatus_begin st' = (st'\<lparr>isPolling := True\<rparr>, [getScenes_begin], Await)"
proof -
  from assms have es: "es = [getScenes_begin,
      Log LogError (''Error polling scene status: '' @ error_message err)]"
    and out: "out = Return ()" and st': "st' = st0\<lparr>isPolling := False\<rparr>"
    by (auto simp: pollSceneStatus_def pollSceneStatus_begin_idle pollSceneStatus_resume_def)
  from st' assms(1) have same: "st' = st0" by simp
  from es have "broadcasts es = []" by (simp add: getScenes_begin_def)
  moreover from same assms(1,2)
  have "pollSceneStatus_begin st' = (st'\<lparr>isPolling := True\<rparr>, [getScenes_begin], Await)"
    by (simp add: pollSceneStatus_begin_idle)
  ultimately show ?thesis using es out same assms(1) by simp
qed

theorem poll_getScenes_rejected_witness:
  "\<not> isPolling \<lparr>isPolling = False, apiClient = Some \<lparr>bridgeIp = ''192.168.1.100'', apiKey = ''key''\<rparr>\<rparr>
   \<and> getScenes_settle (Rejected (JsError ''Network error'')) = Inl (JsError ''Network error'')
   \<and> pollSceneStatus
        \<lparr>scenes = [\<lparr>cfg_id = ''scene-1'', cfg_name = ''Sunset'', transitionDuration = 30\<rparr>],
         debug = False\<rparr>
        (Rejected (JsError ''Network error''))
        \<lparr>isPolling = False, apiClient = Some \<lparr>bridgeIp = ''192.168.1.100'', apiKey = ''key''\<rparr>\<rparr> =
       (\<lparr>isPolling = False, apiClient = Some \<lparr>bridgeIp = ''192.168.1.100'', apiKey = ''key''\<rparr>\<rparr>,
        [HttpGet ''/resource/scene'', Log LogError ''Error polling scene status: Network error''],
        Return ())"
proof -
  let ?client = "\<lparr>bridgeIp = ''192.168.1.100'', apiKey = ''key''\<rparr>"
  let ?st0 = "\<lparr>isPolling = False, apiClient = Some ?client\<rparr>"
  let ?config = "\<lparr>scenes = [\<lparr>cfg_id = ''scene-1'', cfg_name = ''Sunset'',
    transitionDuration = 30\<rparr>], debug = False\<rparr>"
  let ?r = "Rejected (JsError ''Network error'') :: HueScene HueResourceResponse settled"
  have a: "\<not> isPolling ?st0" and b: "apiClient ?st0 = Some ?client" by simp_all
  have c: "getScenes_settle ?r = Inl (JsError ''Network error'')"
    by (simp add: getScenes_settle_def)
  obtain st' es out where run: "pollSceneStatus ?config ?r ?st0 = (st', es, out)"
    by (cases "pollSceneStatus ?config ?r ?st0") blast
  from poll_getScenes_rejected [OF a b c run]
  have "es = [getScenes_begin,
      Log LogError (''Error polling scene status: '' @ error_message (JsError ''Network error''))]"
    and "out = Return ()" and "st' = ?st0"
    by blast+
  with run a c show ?thesis by (simp add: getScenes_begin_def)
qed

section \<open>The order of the broadcasts\<close>

lemma broadcasts_pollSceneStatus_resume:
  assumes "getScenes_settle r = Inr bridge_scenes"
  shows "broadcasts (fst (snd (pollSceneStatus_resume config r st))) =
     map (\<lambda>c. (cfg_id c, scene_isActive (the (sceneMap bridge_scenes (cfg_id c)))))
       (filter (\<lambda>c. cfg_id c \<in> scene_id ` set bridge_scenes) (scenes config))"
proof -
  have "broadcasts (fst (snd (pollSceneStatus_resume config r st))) =
      broadcasts (poll_loop (sceneMap bridge_scenes) (scenes config))"
    using assms by (simp add: pollSceneStatus_resume_def broadcasts_append)
  then show ?thesis
    by (simp add: broadcasts_poll_loop sceneMap_None_iff)
qed

text \<open>
  Claim C5, as stated, fails: the loop of a tick runs over \<open>config.scenes\<close> and looks
  each configured id up in the bridge's answer, so the events follow the configuration's
  order. With the scenes \<open>a\<close>, \<open>b\<close> configured in this order and the bridge answering
  \<open>b\<close>, \<open>a\<close>, the events are emitted for \<open>a\<close>, then \<open>b\<close>.
\<close>

theorem poll_broadcast_bridge_order_counterexample:
  "map fst (broadcasts (fst (snd (pollSceneStatus_resume
      \<lparr>scenes = [\<lparr>cfg_id = ''a'', cfg_name = ''A'', transitionDuration = 30\<rparr>,
                 \<lparr>cfg_id = ''b'', cfg_name = ''B'', transitionDuration = 30\<rparr>],
       debug = False\<rparr>
      (Fulfilled \<lparr>errors = [],
         data = [\<lparr>scene_id = ''b'', metadata_name = ''B'', status_active = Some ''static''\<rparr>,
                 \<lparr>scene_id = ''a'', metadata_name = ''A'', status_active = Some ''inactive''\<rparr>]\<rparr>)
      \<lparr>isPolling = True, apiClient = Some \<lparr>bridgeIp = ''192.168.1.100'', apiKey = ''key''\<rparr>\<rparr>)))) =
     [''a'', ''b'']
   \<and> map fst (broadcasts (fst (snd (pollSceneStatus_resume
      \<lparr>scenes = [\<lparr>cfg_id = ''a'', cfg_name = ''A'', transitionDuration = 30\<rparr>,
                 \<lparr>cfg_id = ''b'', cfg_name = ''B'', transitionDuration = 30\<rparr>],
       debug = False\<rparr>
      (Fulfilled \<lparr>errors = [],
         data = [\<lparr>scene_id = ''b'', metadata_name = ''B'', status_active = Some ''static''\<rparr>,
                 \<lparr>scene_id = ''a'', metadata_name = ''A'', status_active = Some ''inactive''\<rparr>]\<rparr>)
      \<lparr>isPolling = True, apiClient = Some \<lparr>bridgeIp = ''192.168.1.100'', apiKey = ''key''\<rparr>\<rparr>)))) \<noteq>
     map scene_id
       [\<lparr>scene_id = ''b'', metadata_name = ''B'', status_active = Some ''static''\<rparr>,
        \<lparr>scene_id = ''a'', metadata_name = ''A'', status_active = Some ''inactive''\<rparr>]"
  by (simp add: pollSceneStatus_resume_def getScenes_settle_def sceneMap_def)

text \<open>
  Claim C5, amended. Within one poll tick whose \<open>getScenes\<close> succeeds, the
  \<open>(sceneId, isActive)\<close> events are emitted in the order of the configured scenes
  (\<open>config.scenes\<close>), one for every configured scene whose id is present in the
  bridge's answer, with \<open>isActive\<close> computed from the answer's scene of that id.
\<close>

theorem poll_broadcast_config_order:
  assumes "getScenes_settle r = Inr bridge_scenes"
    and "pollSceneStatus_resume config r st = (st', es, out)"
  shows "map fst (broadcasts es) =
      filter (\<lambda>sceneId. sceneId \<in> scene_id ` set bridge_scenes) (map cfg_id (scenes config))
    \<and> broadcasts es =
      map (\<lambda>c. (cfg_id c, scene_isActive (the (sceneMap bridge_scenes (cfg_id c)))))
        (filter (\<lambda>c. cfg_id c \<in> scene_id ` set bridge_scenes) (scenes config))"
proof -
  from broadcasts_pollSceneStatus_resume [OF assms(1), of config st] assms(2)
  have b: "broadcasts es =
      map (\<lambda>c. (cfg_id c, scene_isActive (the (sceneMap bridge_scenes (cfg_id c)))))
        (filter (\<lambda>c. cfg_id c \<in> scene_id ` set bridge_scenes) (scenes config))"
    by simp
  then have "map fst (broadcasts es) =
      map cfg_id (filter (\<lambda>c. cfg_id c \<in> scene_id ` set bridge_scenes) (scenes config))"
    by (simp add: comp_def)
  also have "\<dots> =
      filter (\<lambda>sceneId. sceneId \<in> scene_id ` set bridge_scenes) (map cfg_id (scenes config))"
    by (simp add: filter_map comp_def)
  finally show ?thesis using b by simp
qed

theorem poll_broadcast_config_order_witness:
  "getScenes_settle (Fulfilled \<lparr>errors = [],
       data = [\<lparr>scene_id = ''b'', metadata_name = ''B'', status_active = Some ''static''\<rparr>,
               \<lparr>scene_id = ''a'', metadata_name = ''A'', status_active = Some ''inactive''\<rparr>]\<rparr>) =
     Inr [\<lparr>scene_id = ''b'', metadata_name = ''B'', status_active = Some ''static''\<rparr>,
          \<lparr>scene_id = ''a'', metadata_name = ''A'', status_active = Some ''inactive''\<rparr>]
   \<and> broadcasts (fst (snd (pollSceneStatus_resume
      \<lparr>scenes = [\<lparr>cfg_id = ''a'', cfg_name = ''A'', transitionDuration = 30\<rparr>,
                 \<lparr>cfg_id = ''c'', cfg_name = ''C'', transitionDuration = 5\<rparr>,
                 \<lparr>cfg_id = ''b'', cfg_name = ''B'', transitionDuration = 30\<rparr>],
       debug = True\<rparr>
      (Fulfilled \<lparr>errors = [],
         data = [\<lparr>scene_id = ''b'', metadata_name = ''B'', status_active = Some ''static''\<rparr>,
                 \<lparr>scene_id = ''a'', metadata_name = ''A'', status_active = Some ''inactive''\<rparr>]\<rparr>)
      \<lparr>isPolling = True, apiClient = Some \<lparr>bridgeIp = ''192.168.1.100'', apiKey = ''key''\<rparr>\<rparr>))) =
     [(''a'', False), (''b'', True)]"
proof -
  let ?sa = "\<lparr>scene_id = ''a'', metadata_name = ''A'', status_active = Some ''inactive''\<rparr>"
  let ?sb = "\<lparr>scene_id = ''b'', metadata_name = ''B'', status_active = Some ''static''\<rparr>"
  let ?r = "Fulfilled \<lparr>errors = [], data = [?sb, ?sa]\<rparr>"
  let ?config = "\<lparr>scenes = [\<lparr>cfg_id = ''a'', cfg_name = ''A'', transitionDuration = 30\<rparr>,
                 \<lparr>cfg_id = ''c'', cfg_name = ''C'', transitionDuration = 5\<rparr>,
                 \<lparr>cfg_id = ''b'', cfg_name = ''B'', transitionDuration = 30\<rparr>],
       debug = True\<rparr>"
  let ?st = "\<lparr>isPolling = True,
    apiClient = Some \<lparr>bridgeIp = ''192.168.1.100'', apiKey = ''key''\<rparr>\<rparr>"
  have a: "getScenes_settle ?r = Inr [?sb, ?sa]"
    by (simp add: getScenes_settle_def)
  obtain st' es out where run: "pollSceneStatus_resume ?config ?r ?st = (st', es, out)"
    by (cases "pollSceneStatus_resume ?config ?r ?st") blast
  from poll_broadcast_config_order [OF a run]
  have "broadcasts es =
      map (\<lambda>c. (cfg_id c, scene_isActive (the (sceneMap [?sb, ?sa] (cfg_id c)))))
        (filter (\<lambda>c. cfg_id c \<in> scene_id ` set [?sb, ?sa]) (scenes ?config))"
    by blast
  then have "broadcasts es = [(''a'', False), (''b'', True)]"
    by (simp add: sceneMap_def scene_isActive_def)
  with a run show ?thesis by simp
qed

section \<open>A scene without a status\<close>

lemma sceneMap_snoc: "sceneMap (xs @ [x]) = (sceneMap xs)(scene_id x \<mapsto> x)"
  by (simp add: sceneMap_def)

lemma sceneMap_map:
  assumes "\<And>s. scene_id (f s) = scene_id s"
  shows "sceneMap (map f xs) i = map_option f (sceneMap xs i)"
proof (induction xs rule: rev_induct)
  case Nil
  show ?case by (simp add: sceneMap_def)
next
  case (snoc x xs)
  then show ?case by (simp add: sceneMap_snoc assms)
qed

lemma poll_loop_map_option:
  assumes "\<And>s. scene_isActive (f s) = scene_isActive s"
  shows "poll_loop (\<lambda>i. map_option f (m i)) cfgs = poll_loop m cfgs"
  by (induction cfgs) (auto simp: assms split: option.splits)

lemma getOn_outside_window:
  assumes "\<not> (\<exists>t. lastActivated st = Some t \<and> now - t < 30000)"
  shows "snd (getOn sceneConfig config now (Fulfilled \<lparr>errors = [], data = scene # others\<rparr>) st) =
     Return (scene_isActive scene)"
proof -
  have "getOn_begin sceneConfig now st = ([getScene_begin (cfg_id sceneConfig)], Await)"
    using assms by (cases "lastActivated st") (simp_all add: getOn_begin_def)
  then show ?thesis
    by (simp add: getOn_def getOn_resume_def getScene_settle_def Let_def)
qed

text \<open>
  Claim C10. A bridge scene whose \<open>status\<close> is absent counts as inactive. Outside the
  30-second window \<open>getOn\<close> returns false for it, and a poll tick broadcasts
  \<open>isActive = false\<close> for it when it is configured (the scene being the entry of its id
  that the tick's map keeps, the last one in the answer); both are what a status of
  \<open>inactive\<close> gives: \<open>getOn\<close> returns the same, and the tick broadcasts the same events
  for the answer in which every absent status is replaced by \<open>inactive\<close>.
\<close>

theorem absent_status_is_inactive:
  assumes "status_active scene = None"
    and "\<not> (\<exists>t. lastActivated st = Some t \<and> now - t < 30000)"
    and "scene_id scene \<notin> scene_id ` set later"
    and "c \<in> set (scenes config)" and "cfg_id c = scene_id scene"
  shows "\<not> scene_isActive scene
    \<and> snd (getOn sceneConfig config now (Fulfilled \<lparr>errors = [], data = scene # others\<rparr>) st) =
        Return False
    \<and> snd (getOn sceneConfig config now
        (Fulfilled \<lparr>errors = [],
           data = scene\<lparr>status_active := Some ''inactive''\<rparr> # others\<rparr>) st) = Return False
    \<and> (scene_id scene, False) \<in> set (broadcasts (fst (snd (pollSceneStatus_resume config
        (Fulfilled \<lparr>errors = [], data = earlier @ scene # later\<rparr>) pst))))
    \<and> broadcasts (fst (snd (pollSceneStatus_resume config
        (Fulfilled \<lparr>errors = [], data = earlier @ scene # later\<rparr>) pst))) =
      broadcasts (fst (snd (pollSceneStatus_resume config
        (Fulfilled \<lparr>errors = [],
           data = map (\<lambda>s. if status_active s = None
                            then s\<lparr>status_active := Some ''inactive''\<rparr> else s)
                    (earlier @ scene # later)\<rparr>) pst)))"
proof -
  let ?f = "\<lambda>s. if status_active s = None then s\<lparr>status_active := Some ''inactive''\<rparr> else s"
  let ?bridge = "earlier @ scene # later"
  have inactive: "\<not> scene_isActive scene"
    using assms(1) by (simp add: scene_isActive_def)
  have read: "snd (getOn sceneConfig config now
      (Fulfilled \<lparr>errors = [], data = scene # others\<rparr>) st) = Return False"
    using getOn_outside_window [OF assms(2), of sceneConfig config scene others] inactive by simp
  have read': "snd (getOn sceneConfig config now
      (Fulfilled \<lparr>errors = [], data = scene\<lparr>status_active := Some ''inactive''\<rparr> # others\<rparr>) st) =
      Return False"
    using getOn_outside_window [OF assms(2), of sceneConfig config
        "scene\<lparr>status_active := Some ''inactive''\<rparr>" others]
    by (simp add: scene_isActive_def)
  have settle: "getScenes_settle (Fulfilled \<lparr>errors = [], data = ?bridge\<rparr>) = Inr ?bridge"
    by (simp add: getScenes_settle_def)
  have looked_up: "sceneMap ?bridge (cfg_id c) = Some scene"
    using sceneMap_last_occurrence [OF assms(3), of earlier] assms(5) by simp
  have present: "cfg_id c \<in> scene_id ` set ?bridge"
    using assms(5) by simp
  have "c \<in> set (filter (\<lambda>c. cfg_id c \<in> scene_id ` set ?bridge) (scenes config))"
    using assms(4) present by simp
  then have "(cfg_id c, scene_isActive (the (sceneMap ?bridge (cfg_id c)))) \<in>
      (\<lambda>c. (cfg_id c, scene_isActive (the (sceneMap ?bridge (cfg_id c))))) `
        set (filter (\<lambda>c. cfg_id c \<in> scene_id ` set ?bridge) (scenes config))"
    by (rule imageI)
  then have emitted: "(scene_id scene, False) \<in> set (broadcasts (fst (snd (pollSceneStatus_resume
      config (Fulfilled \<lparr>errors = [], data = ?bridge\<rparr>) pst))))"
    using broadcasts_pollSceneStatus_resume [OF settle, of config pst] looked_up inactive assms(5)
    by simp
  have id_f: "\<And>s. scene_id (?f s) = scene_id s" by simp
  have act_f: "\<And>s. scene_isActive (?f s) = scene_isActive s"
    by (simp add: scene_isActive_def)
  have "poll_loop (sceneMap (map ?f ?bridge)) (scenes config) =
      poll_loop (\<lambda>i. map_option ?f (sceneMap ?bridge i)) (scenes config)"
    using sceneMap_map [of ?f ?bridge, OF id_f] by presburger
  also have "\<dots> = poll_loop (sceneMap ?bridge) (scenes config)"
    by (rule poll_loop_map_option [of ?f, OF act_f])
  finally have same: "broadcasts (fst (snd (pollSceneStatus_resume config
        (Fulfilled \<lparr>errors = [], data = ?bridge\<rparr>) pst))) =
      broadcasts (fst (snd (pollSceneStatus_resume config
        (Fulfilled \<lparr>errors = [], data = map ?f ?bridge\<rparr>) pst)))"
    by (simp add: pollSceneStatus_resume_def getScenes_settle_def)
  from inactive read read' emitted same show ?thesis by blast
qed

theorem absent_status_is_inactive_witness:
  "status_active \<lparr>scene_id = ''scene-1'', metadata_name = ''Sunset'', status_active = None\<rparr> = None
   \<and> \<not> (\<exists>t. lastActivated \<lparr>isActivating = False, lastActivated = Some 1000\<rparr> = Some t
            \<and> 40000 - t < 30000)
   \<and> ''scene-1'' \<notin> scene_id ` set ([] :: HueScene list)
   \<and> snd (getOn \<lparr>cfg_id = ''scene-1'', cfg_name = ''Sunset'', transitionDuration = 30\<rparr>
        \<lparr>scenes = [\<lparr>cfg_id = ''scene-1'', cfg_name = ''Sunset'', transitionDuration = 30\<rparr>],
         debug = True\<rparr> 40000
        (Fulfilled \<lparr>errors = [],
           data = [\<lparr>scene_id = ''scene-1'', metadata_name = ''Sunset'', status_active = None\<rparr>]\<rparr>)
        \<lparr>isActivating = False, lastActivated = Some 1000\<rparr>) = Return False
   \<and> (''scene-1'', False) \<in> set (broadcasts (fst (snd (pollSceneStatus_resume
        \<lparr>scenes = [\<lparr>cfg_id = ''scene-1'', cfg_name = ''Sunset'', transitionDuration = 30\<rparr>],
         debug = True\<rparr>
        (Fulfilled \<lparr>errors = [],
           data = [\<lparr>scene_id = ''scene-2'', metadata_name = ''Dawn'',
                    status_active = Some ''static''\<rparr>,
                   \<lparr>scene_id = ''scene-1'', metadata_name = ''Sunset'', status_active = None\<rparr>]\<rparr>)
        \<lparr>isPolling = True, apiClient = Some \<lparr>bridgeIp = ''192.168.1.100'', apiKey = ''key''\<rparr>\<rparr>))))"
proof -
  let ?scene = "\<lparr>scene_id = ''scene-1'', metadata_name = ''Sunset'', status_active = None\<rparr>"
  let ?other = "\<lparr>scene_id = ''scene-2'', metadata_name = ''Dawn'',
    status_active = Some ''static''\<rparr>"
  let ?cfg = "\<lparr>cfg_id = ''scene-1'', cfg_name = ''Sunset'', transitionDuration = 30\<rparr>"
  let ?config = "\<lparr>scenes = [?cfg], debug = True\<rparr>"
  let ?st = "\<lparr>isActivating = False, lastActivated = Some 1000\<rparr>"
  let ?pst = "\<lparr>isPolling = True,
    apiClient = Some \<lparr>bridgeIp = ''192.168.1.100'', apiKey = ''key''\<rparr>\<rparr>"
  have a: "status_active ?scene = None" by simp
  have b: "\<not> (\<exists>t. lastActivated ?st = Some t \<and> 40000 - t < 30000)" by simp
  have c: "scene_id ?scene \<notin> scene_id ` set ([] :: HueScene list)" by simp
  have d: "?cfg \<in> set (scenes ?config)" by simp
  have e: "cfg_id ?cfg = scene_id ?scene" by simp
  from absent_status_is_inactive [OF a b c d e, of ?cfg "[]" "[?other]" ?pst]
  have "snd (getOn ?cfg ?config 40000 (Fulfilled \<lparr>errors = [], data = [?scene]\<rparr>) ?st) =
      Return False"
    and "(scene_id ?scene, False) \<in> set (broadcasts (fst (snd (pollSceneStatus_resume ?config
        (Fulfilled \<lparr>errors = [], data = [?other] @ ?scene # []\<rparr>) ?pst))))"
    by blast+
  with a b c show ?thesis by simp
qed

section \<open>Creating an API key\<close>

text \<open>
  Claim C9. The bridge answers \<open>createApiKey\<close> with a one-element list holding either
  \<open>{success: [{username}]}\<close> or \<open>{error: {type, address, description}}\<close>. For an
  element with a non-empty \<open>success\<close> list \<open>createApiKey\<close> returns the username of its
  first entry. For an element with an \<open>error\<close> object (and, being of the error shape,
  no \<open>success\<close> entry: the list absent or empty) it rejects with an \<open>Error\<close> whose
  message is exactly that error's description. The code tests \<open>success\<close> first.
\<close>

theorem createApiKey_round_trip:
  "(success result = Some (username # usernames) \<longrightarrow>
      createApiKey_settle (Fulfilled [result]) = Inr username)
   \<and> (error result = Some err \<and> (success result = None \<or> success result = Some []) \<longrightarrow>
      createApiKey_settle (Fulfilled [result]) = Inl (JsError (description err))
      \<and> error_message (JsError (description err)) = description err)"
  by (auto simp: createApiKey_settle_def)

theorem createApiKey_round_trip_witness:
  "success \<lparr>success = Some [''test-api-key-123''], error = None\<rparr> = Some [''test-api-key-123'']
   \<and> createApiKey_settle (Fulfilled [\<lparr>success = Some [''test-api-key-123''], error = None\<rparr>]) =
       Inr ''test-api-key-123''
   \<and> error \<lparr>success = None, error = Some \<lparr>err_type = 101, address = [],
        description = ''link button not pressed''\<rparr>\<rparr> =
       Some \<lparr>err_type = 101, address = [], description = ''link button not pressed''\<rparr>
   \<and> createApiKey_settle (Fulfilled [\<lparr>success = None, error = Some \<lparr>err_type = 101,
        address = [], description = ''link button not pressed''\<rparr>\<rparr>]) =
       Inl (JsError ''link button not pressed'')"
proof -
  let ?ok = "\<lparr>success = Some [''test-api-key-123''], error = None\<rparr>"
  let ?err = "\<lparr>err_type = 101, address = [], description = ''link button not pressed''\<rparr>"
  let ?failed = "\<lparr>success = None, error = Some ?err\<rparr>"
  have a: "success ?ok = Some (''test-api-key-123'' # [])" by simp
  have b: "error ?failed = Some ?err \<and> (success ?failed = None \<or> success ?failed = Some [])"
    by simp
  from createApiKey_round_trip [of ?ok "''test-api-key-123''" "[]"] a
  have first: "createApiKey_settle (Fulfilled [?ok]) = Inr ''test-api-key-123''"
    by blast
  from createApiKey_round_trip [where result = ?failed and err = ?err] b
  have "createApiKey_settle (Fulfilled [?failed]) = Inl (JsError (description ?err))"
    by blast
  then have second: "createApiKey_settle (Fulfilled [?failed]) =
      Inl (JsError ''link button not pressed'')"
    by simp
  from first second show ?thesis by simp
qed

end
